theory Spec2Isabelle
  imports Main
begin

section \<open>The NEC frame built by \<open>ACController.send_nec_command\<close>\<close>

text \<open>
  The source is \<^verbatim>\<open>src/whatever.py\<close>, class \<^verbatim>\<open>ACController\<close>. Python's integers are
  unbounded, so addresses, commands and pulse durations are \<^typ>\<open>int\<close>. The shift
  \<^verbatim>\<open>address >> i\<close> of a Python integer is \<^const>\<open>drop_bit\<close> on \<^typ>\<open>int\<close> (floor
  division by a power of two, also for a negative operand), and \<^verbatim>\<open>& 1\<close> is
  \<^const>\<open>and\<close> with 1.
\<close>

subsection \<open>NEC protocol timing (lines 57 to 62), in microseconds\<close>

definition header_mark :: int where
  "header_mark = 9000"

definition header_space :: int where
  "header_space = 4500"

definition bit_mark :: int where
  "bit_mark = 560"

definition one_space :: int where
  "one_space = 1690"

definition zero_space :: int where
  "zero_space = 560"

subsection \<open>Building the pulse list (lines 64 to 85)\<close>

text \<open>
  The condition \<^verbatim>\<open>(byte >> i) & 1\<close> of the four loops, with Python's truth value of an
  integer: anything but zero.
\<close>

definition shifted_bit :: "int \<Rightarrow> nat \<Rightarrow> bool" where
  "shifted_bit byte i \<longleftrightarrow> and (drop_bit i byte) 1 \<noteq> 0"

text \<open>
  The space appended for bit \<open>i\<close>: \<^verbatim>\<open>one_space if (byte >> i) & 1 else zero_space\<close> in the
  loops of lines 67 and 76, and \<^verbatim>\<open>zero_space if (byte >> i) & 1 else one_space\<close> in the
  loops of lines 71 and 80, which send the inverted fields.
\<close>

definition bit_space :: "int \<Rightarrow> nat \<Rightarrow> int" where
  "bit_space byte i = (if shifted_bit byte i then one_space else zero_space)"

definition inverted_bit_space :: "int \<Rightarrow> nat \<Rightarrow> int" where
  "inverted_bit_space byte i = (if shifted_bit byte i then zero_space else one_space)"

text \<open>One pass of a loop body: two calls of \<^verbatim>\<open>pulses.append\<close>.\<close>

definition append_bit :: "int \<Rightarrow> nat \<Rightarrow> int list \<Rightarrow> int list" where
  "append_bit byte i pulses = (pulses @ [bit_mark]) @ [bit_space byte i]"

definition append_inverted_bit :: "int \<Rightarrow> nat \<Rightarrow> int list \<Rightarrow> int list" where
  "append_inverted_bit byte i pulses = (pulses @ [bit_mark]) @ [inverted_bit_space byte i]"

text \<open>
  The list \<^verbatim>\<open>pulses\<close> as it stands at line 85, threaded through the four
  \<^verbatim>\<open>for i in range(8)\<close> loops.
\<close>

definition nec_pulses :: "int \<Rightarrow> int \<Rightarrow> int list" where
  "nec_pulses address command =
     (let pulses = [header_mark, header_space];
          pulses = fold (append_bit address) [0..<8] pulses;
          pulses = fold (append_inverted_bit address) [0..<8] pulses;
          pulses = fold (append_bit command) [0..<8] pulses;
          pulses = fold (append_inverted_bit command) [0..<8] pulses
      in pulses @ [bit_mark])"

section \<open>The pigpio daemon and the program's other effects\<close>

text \<open>
  The controller object: \<^verbatim>\<open>self.gpio_pin\<close> and \<^verbatim>\<open>self.carrier_freq\<close>. The handle
  \<^verbatim>\<open>self.pi\<close> is the connection to the daemon, which lives in the world below. A GPIO
  number is a natural number.
\<close>

record controller =
  gpio_pin :: nat
  carrier_freq :: int

text \<open>\<^verbatim>\<open>pigpio.pulse(gpio_on, gpio_off, delay)\<close>.\<close>

datatype pulse = Pulse (gpio_on: int) (gpio_off: int) (delay: int)

text \<open>The requests the class sends to the daemon through \<^verbatim>\<open>self.pi\<close>.\<close>

datatype pi_call =
    Hardware_PWM nat int int
  | Wave_clear
  | Wave_add_generic "pulse list"
  | Wave_create
  | Wave_send_once int
  | Wave_tx_busy
  | Wave_delete int

text \<open>
  What a Python call can raise here: \<^verbatim>\<open>pigpio.error\<close> from a request, and the plain
  \<^verbatim>\<open>Exception\<close> of the constructor.
\<close>

datatype exn = Pigpio_error string | Exception string

datatype reply = Returns int | Raises exn

text \<open>
  The world outside the interpreter: the lines printed so far, the requests sent to the
  daemon so far (oldest first), the number of \<^verbatim>\<open>time.sleep(0.01)\<close> calls made, and the
  daemon itself, which answers a request from the whole history of requests, the
  current one last. The daemon is arbitrary: it may return any integer or raise at any
  request.
\<close>

record world =
  stdout :: "string list"
  calls :: "pi_call list"
  sleeps :: nat
  daemon :: "pi_call list \<Rightarrow> reply"

text \<open>
  A method returns \<^verbatim>\<open>None\<close> (\<open>Inr ()\<close>) or raises (\<open>Inl\<close>), and leaves a world
  behind in both cases.
\<close>

type_synonym 'a outcome = "(exn + 'a) \<times> world"

definition print :: "string \<Rightarrow> world \<Rightarrow> world" where
  "print line w = w\<lparr>stdout := stdout w @ [line]\<rparr>"

definition sleep :: "world \<Rightarrow> world" where
  "sleep w = w\<lparr>sleeps := Suc (sleeps w)\<rparr>"

text \<open>One request \<^verbatim>\<open>self.pi.f(...)\<close>: it is recorded, then answered by the daemon.\<close>

definition pigpio :: "pi_call \<Rightarrow> world \<Rightarrow> int outcome" where
  "pigpio c w =
     (let w' = w\<lparr>calls := calls w @ [c]\<rparr> in
      case daemon w (calls w') of
        Returns v \<Rightarrow> (Inr v, w')
      | Raises e \<Rightarrow> (Inl e, w'))"

subsection \<open>The constructor (lines 12 to 26)\<close>

text \<open>
  \<^verbatim>\<open>pigpio.pi()\<close> opens the connection; whether it is connected is an input of the model.
\<close>

definition ACController :: "nat \<Rightarrow> bool \<Rightarrow> exn + controller" where
  "ACController pin connected =
     (if \<not> connected
      then Inl (Exception ''Failed to connect to pigpio daemon. Run: sudo pigpiod'')
      else Inr \<lparr>gpio_pin = pin, carrier_freq = 38000\<rparr>)"

subsection \<open>\<open>send_raw_code\<close> (lines 28 to 47)\<close>

text \<open>
  The list comprehension of lines 36 to 40: entries at even positions switch the pin
  on for their duration, entries at odd positions switch it off. \<^verbatim>\<open>1 << self.gpio_pin\<close>
  is \<^const>\<open>push_bit\<close>.
\<close>

definition wave_pulses :: "controller \<Rightarrow> int list \<Rightarrow> pulse list" where
  "wave_pulses self pulses =
     map (\<lambda>i. if i mod 2 = 0
              then Pulse (push_bit (gpio_pin self) 1) 0 (pulses ! i)
              else Pulse 0 (push_bit (gpio_pin self) 1) (pulses ! i))
       [0..<length pulses]"

text \<open>
  The loop \<^verbatim>\<open>while self.pi.wave_tx_busy(): time.sleep(0.01)\<close> runs for as long as the
  daemon answers anything but zero, which may be forever. The first argument bounds the
  number of polls; \<open>None\<close> says that the bound was reached with the daemon still busy.
\<close>

fun wait_tx :: "nat \<Rightarrow> world \<Rightarrow> unit outcome option" where
  "wait_tx 0 w = None"
| "wait_tx (Suc fuel) w =
     (case pigpio Wave_tx_busy w of
        (Inl e, w') \<Rightarrow> Some (Inl e, w')
      | (Inr busy, w') \<Rightarrow>
          if busy \<noteq> 0 then wait_tx fuel (sleep w') else Some (Inr (), w'))"

definition send_raw_code :: "controller \<Rightarrow> int list \<Rightarrow> nat \<Rightarrow> world \<Rightarrow> unit outcome option" where
  "send_raw_code self pulses fuel w =
     (case pigpio Wave_clear w of
        (Inl e, w1) \<Rightarrow> Some (Inl e, w1)
      | (Inr _, w1) \<Rightarrow>
     (case pigpio (Wave_add_generic (wave_pulses self pulses)) w1 of
        (Inl e, w2) \<Rightarrow> Some (Inl e, w2)
      | (Inr _, w2) \<Rightarrow>
     (case pigpio Wave_create w2 of
        (Inl e, w3) \<Rightarrow> Some (Inl e, w3)
      | (Inr wave_id, w3) \<Rightarrow>
          if wave_id \<ge> 0 then
            (case pigpio (Wave_send_once wave_id) w3 of
               (Inl e, w4) \<Rightarrow> Some (Inl e, w4)
             | (Inr _, w4) \<Rightarrow>
            (case wait_tx fuel w4 of
               None \<Rightarrow> None
             | Some (Inl e, w5) \<Rightarrow> Some (Inl e, w5)
             | Some (Inr _, w5) \<Rightarrow>
            (case pigpio (Wave_delete wave_id) w5 of
               (Inl e, w6) \<Rightarrow> Some (Inl e, w6)
             | (Inr _, w6) \<Rightarrow> Some (Inr (), w6))))
          else Some (Inr (), w3))))"

subsection \<open>\<open>send_nec_command\<close> (lines 49 to 90)\<close>

text \<open>
  The frame is built first, then three statements follow one another with no
  \<^verbatim>\<open>try\<close> around them: carrier on, the frame, carrier off. An exception raised by one
  of them leaves the method at once.
\<close>

definition send_nec_command ::
  "controller \<Rightarrow> int \<Rightarrow> int \<Rightarrow> nat \<Rightarrow> world \<Rightarrow> unit outcome option" where
  "send_nec_command self address command fuel w =
     (let pulses = nec_pulses address command in
      case pigpio (Hardware_PWM (gpio_pin self) (carrier_freq self) 500000) w of
        (Inl e, w1) \<Rightarrow> Some (Inl e, w1)
      | (Inr _, w1) \<Rightarrow>
     (case send_raw_code self pulses fuel w1 of
        None \<Rightarrow> None
      | Some (Inl e, w2) \<Rightarrow> Some (Inl e, w2)
      | Some (Inr _, w2) \<Rightarrow>
     (case pigpio (Hardware_PWM (gpio_pin self) 0 0) w2 of
        (Inl e, w3) \<Rightarrow> Some (Inl e, w3)
      | (Inr _, w3) \<Rightarrow> Some (Inr (), w3))))"

section \<open>The commands of the air conditioner (lines 92 to 159)\<close>

definition power_on :: "controller \<Rightarrow> nat \<Rightarrow> world \<Rightarrow> unit outcome option" where
  "power_on self fuel w =
     send_nec_command self 0x00 0x08 fuel (print ''Sending Power ON command...'' w)"

definition power_off :: "controller \<Rightarrow> nat \<Rightarrow> world \<Rightarrow> unit outcome option" where
  "power_off self fuel w =
     send_nec_command self 0x00 0x09 fuel (print ''Sending Power OFF command...'' w)"

subsection \<open>Strings\<close>

text \<open>
  A Python string is a sequence of code points; a \<^typ>\<open>char\<close> stands for a code point
  below 256. The degree sign of the two temperature messages is code point 176.
\<close>

definition degree_sign :: char where
  "degree_sign = char_of (176 :: nat)"

text \<open>\<^verbatim>\<open>str(n)\<close> for an integer, as the f-string of line 113 renders \<^verbatim>\<open>{temp}\<close>.\<close>

function str_nat :: "nat \<Rightarrow> string" where
  "str_nat n =
     (if n < 10 then [char_of (48 + n)]
      else str_nat (n div 10) @ [char_of (48 + n mod 10)])"
  by pat_completeness auto
termination
  by (relation "measure id") auto

declare str_nat.simps [simp del]

definition str :: "int \<Rightarrow> string" where
  "str n = (if n < 0 then CHR ''-'' # str_nat (nat (- n)) else str_nat (nat n))"

text \<open>
  \<^verbatim>\<open>s.lower()\<close> on code points below 256: the capitals A to Z and the Latin-1 capitals
  192 to 222, the multiplication sign 215 apart, move up by 32; nothing else changes.
\<close>

definition lower_char :: "char \<Rightarrow> char" where
  "lower_char c =
     (let n = of_char c :: nat in
      if (65 \<le> n \<and> n \<le> 90) \<or> (192 \<le> n \<and> n \<le> 222 \<and> n \<noteq> 215)
      then char_of (n + 32) else c)"

definition lower :: "string \<Rightarrow> string" where
  "lower s = map lower_char s"

text \<open>
  \<^verbatim>\<open>str(list(d.keys()))\<close> for a dictionary whose keys are plain words (no quote, no
  backslash, nothing unprintable): each key between apostrophes, the keys in insertion
  order, separated by a comma and a space, in square brackets.
\<close>

definition repr_str :: "string \<Rightarrow> string" where
  "repr_str s = [CHR 0x27] @ s @ [CHR 0x27]"

fun join :: "string \<Rightarrow> string list \<Rightarrow> string" where
  "join sep [] = []"
| "join sep [s] = s"
| "join sep (s # t # ss) = s @ sep @ join sep (t # ss)"

definition str_keys :: "(string \<times> int) list \<Rightarrow> string" where
  "str_keys d = ''['' @ join '', '' (map (repr_str \<circ> fst) d) @ '']''"

subsection \<open>\<open>set_temperature\<close> (lines 102 to 116)\<close>

definition set_temperature :: "controller \<Rightarrow> int \<Rightarrow> nat \<Rightarrow> world \<Rightarrow> unit outcome option" where
  "set_temperature self temp fuel w =
     (if \<not> (16 \<le> temp \<and> temp \<le> 30)
      then Some (Inr (),
             print (''Temperature out of range (16-30'' @ [degree_sign] @ ''C)'') w)
      else
        let w1 = print (''Setting temperature to '' @ str temp @ [degree_sign] @ ''C...'') w;
            command = 0x10 + (temp - 16)
        in send_nec_command self 0x00 command fuel w1)"

subsection \<open>\<open>set_mode\<close> (lines 118 to 138) and \<open>set_fan_speed\<close> (lines 140 to 159)\<close>

text \<open>
  The two dictionaries, as association lists in the order of the source. \<^const>\<open>map_of\<close>
  is the lookup; \<open>None\<close> is the branch \<^verbatim>\<open>not in\<close>.
\<close>

definition modes :: "(string \<times> int) list" where
  "modes = [(''cool'', 0x30), (''heat'', 0x31), (''fan'', 0x32), (''dry'', 0x33),
            (''auto'', 0x34)]"

definition speeds :: "(string \<times> int) list" where
  "speeds = [(''low'', 0x40), (''medium'', 0x41), (''high'', 0x42), (''auto'', 0x43)]"

definition set_mode :: "controller \<Rightarrow> string \<Rightarrow> nat \<Rightarrow> world \<Rightarrow> unit outcome option" where
  "set_mode self mode fuel w =
     (case map_of modes (lower mode) of
        None \<Rightarrow>
          Some (Inr (), print (''Invalid mode. Choose from: '' @ str_keys modes) w)
      | Some command \<Rightarrow>
          send_nec_command self 0x00 command fuel
            (print (''Setting mode to '' @ mode @ ''...'') w))"

definition set_fan_speed :: "controller \<Rightarrow> string \<Rightarrow> nat \<Rightarrow> world \<Rightarrow> unit outcome option" where
  "set_fan_speed self speed fuel w =
     (case map_of speeds (lower speed) of
        None \<Rightarrow>
          Some (Inr (), print (''Invalid speed. Choose from: '' @ str_keys speeds) w)
      | Some command \<Rightarrow>
          send_nec_command self 0x00 command fuel
            (print (''Setting fan speed to '' @ speed @ ''...'') w))"

section \<open>Reading a byte back from a frame\<close>

text \<open>
  The source has no decoder. This one is the receiver's reading of a byte field as the
  specification words it (section 8): eight pairs of a mark and a space, least
  significant bit first, a space of 1690 microseconds for a one and of 560 for a zero.
  It serves only to state what the inverted fields carry.
\<close>

fun spec_decode_byte :: "int list \<Rightarrow> int" where
  "spec_decode_byte (m # s # rest) = (if s = 1690 then 1 else 0) + 2 * spec_decode_byte rest"
| "spec_decode_byte _ = 0"

text \<open>A daemon that accepts every request and is never busy, and a fresh world around it.\<close>

definition willing_daemon :: "pi_call list \<Rightarrow> reply" where
  "willing_daemon cs = Returns 0"

definition fresh_world :: "(pi_call list \<Rightarrow> reply) \<Rightarrow> world" where
  "fresh_world d = \<lparr>stdout = [], calls = [], sleeps = 0, daemon = d\<rparr>"

text \<open>
  A daemon that raises at \<^verbatim>\<open>wave_create\<close>, as pigpio does when it has no control blocks
  left for the wave, and accepts every other request.
\<close>

definition refusing_wave_create :: "pi_call list \<Rightarrow> reply" where
  "refusing_wave_create cs =
     (if last cs = Wave_create then Raises (Pigpio_error ''No more CBs for waveform'')
      else Returns 0)"

text \<open>The controller of the example at the end of the source, on GPIO 17.\<close>

definition ac :: controller where
  "ac = \<lparr>gpio_pin = 17, carrier_freq = 38000\<rparr>"

section \<open>Shape of the frame\<close>

lemma range8: "[0..<8] = [0, 1, 2, 3, 4, 5, 6, 7::nat]"
  by code_simp

lemma below8: "i < 8 \<Longrightarrow> i = 0 \<or> i = 1 \<or> i = 2 \<or> i = 3 \<or> i = 4 \<or> i = 5 \<or> i = 6 \<or> i = (7::nat)"
  by arith

lemma shifted_bit_iff: "shifted_bit byte i \<longleftrightarrow> bit byte i"
  by (simp add: shifted_bit_def and_one_eq bit_iff_odd_drop_bit odd_iff_mod_2_eq_one)

lemma bit_space_eq: "bit_space byte i = (if bit byte i then 1690 else 560)"
  by (simp add: bit_space_def shifted_bit_iff one_space_def zero_space_def)

lemma inverted_bit_space_eq: "inverted_bit_space byte i = (if bit byte i then 560 else 1690)"
  by (simp add: inverted_bit_space_def shifted_bit_iff one_space_def zero_space_def)

text \<open>The frame, entry by entry.\<close>

lemma nec_pulses_entries:
  "nec_pulses a c =
    [9000, 4500,
     560, bit_space a 0, 560, bit_space a 1, 560, bit_space a 2, 560, bit_space a 3,
     560, bit_space a 4, 560, bit_space a 5, 560, bit_space a 6, 560, bit_space a 7,
     560, inverted_bit_space a 0, 560, inverted_bit_space a 1,
     560, inverted_bit_space a 2, 560, inverted_bit_space a 3,
     560, inverted_bit_space a 4, 560, inverted_bit_space a 5,
     560, inverted_bit_space a 6, 560, inverted_bit_space a 7,
     560, bit_space c 0, 560, bit_space c 1, 560, bit_space c 2, 560, bit_space c 3,
     560, bit_space c 4, 560, bit_space c 5, 560, bit_space c 6, 560, bit_space c 7,
     560, inverted_bit_space c 0, 560, inverted_bit_space c 1,
     560, inverted_bit_space c 2, 560, inverted_bit_space c 3,
     560, inverted_bit_space c 4, 560, inverted_bit_space c 5,
     560, inverted_bit_space c 6, 560, inverted_bit_space c 7,
     560]"
  by (simp add: nec_pulses_def range8 append_bit_def append_inverted_bit_def
      header_mark_def header_space_def bit_mark_def)

lemma field_entries:
  assumes "i < 8"
  shows "nec_pulses a c ! (2 + 2 * i) = 560" and "nec_pulses a c ! (3 + 2 * i) = bit_space a i"
    and "nec_pulses a c ! (18 + 2 * i) = 560"
    and "nec_pulses a c ! (19 + 2 * i) = inverted_bit_space a i"
    and "nec_pulses a c ! (34 + 2 * i) = 560" and "nec_pulses a c ! (35 + 2 * i) = bit_space c i"
    and "nec_pulses a c ! (50 + 2 * i) = 560"
    and "nec_pulses a c ! (51 + 2 * i) = inverted_bit_space c i"
  using below8 [OF assms] by (auto simp add: nec_pulses_entries)

text \<open>The low eight bits of an integer, bit by bit.\<close>

lemma take_bit8:
  "take_bit 8 (x::int) =
     of_bool (bit x 0) + 2 * (of_bool (bit x 1) + 2 * (of_bool (bit x 2) +
     2 * (of_bool (bit x 3) + 2 * (of_bool (bit x 4) + 2 * (of_bool (bit x 5) +
     2 * (of_bool (bit x 6) + 2 * of_bool (bit x 7)))))))"
  by (simp add: take_bit_Suc numeral_eq_Suc bit_Suc bit_0 mod_2_eq_odd)

lemma and_255: "and (x::int) 255 = take_bit 8 x"
  using take_bit_eq_mask [of 8 x] by (simp add: mask_eq_exp_minus_1)

lemma bit_low_byte: "i < 8 \<Longrightarrow> bit (and (x::int) 255) i = bit x i"
  by (simp add: and_255 bit_take_bit_iff)

lemma decode_address: "spec_decode_byte (take 16 (drop 2 (nec_pulses a c))) = and a 255"
  by (simp add: nec_pulses_entries and_255 take_bit8 bit_space_eq)

lemma decode_inverted_address:
  "spec_decode_byte (take 16 (drop 18 (nec_pulses a c))) = and (not a) 255"
  by (simp add: nec_pulses_entries and_255 take_bit8 inverted_bit_space_eq bit_not_int_iff)

lemma decode_command: "spec_decode_byte (take 16 (drop 34 (nec_pulses a c))) = and c 255"
  by (simp add: nec_pulses_entries and_255 take_bit8 bit_space_eq)

lemma decode_inverted_command:
  "spec_decode_byte (take 16 (drop 50 (nec_pulses a c))) = and (not c) 255"
  by (simp add: nec_pulses_entries and_255 take_bit8 inverted_bit_space_eq bit_not_int_iff)

lemma inverted_bit_space_complement:
  "i < 8 \<Longrightarrow> inverted_bit_space byte i = (if bit (and (not byte) 255) i then 1690 else 560)"
  by (simp add: inverted_bit_space_eq bit_low_byte bit_not_int_iff)

text \<open>
  C1. The inverted address field (entries 19 to 34, counted from 1, so positions 18 to
  33) and the inverted command field (entries 51 to 66, positions 50 to 65) encode the
  one's complement of the byte: for each bit \<open>i\<close> of 0 to 7 the mark is 560 and the
  space is 1690 when bit \<open>i\<close> of the byte is 0 and 560 when it is 1. Read back, each
  field gives the complement of the byte masked to eight bits.
\<close>

theorem inverted_fields_are_complement:
  "(\<forall>i<8. nec_pulses a c ! (18 + 2 * i) = 560
        \<and> nec_pulses a c ! (19 + 2 * i) = (if bit a i then 560 else 1690)
        \<and> nec_pulses a c ! (50 + 2 * i) = 560
        \<and> nec_pulses a c ! (51 + 2 * i) = (if bit c i then 560 else 1690))
   \<and> spec_decode_byte (take 16 (drop 18 (nec_pulses a c))) = and (not a) 0xFF
   \<and> spec_decode_byte (take 16 (drop 50 (nec_pulses a c))) = and (not c) 0xFF"
proof -
  have "nec_pulses a c ! (18 + 2 * i) = 560
        \<and> nec_pulses a c ! (19 + 2 * i) = (if bit a i then 560 else 1690)
        \<and> nec_pulses a c ! (50 + 2 * i) = 560
        \<and> nec_pulses a c ! (51 + 2 * i) = (if bit c i then 560 else 1690)" if "i < 8" for i
    using field_entries [OF that, of a c] unfolding inverted_bit_space_eq by blast
  then show ?thesis
    using decode_inverted_address [of a c] decode_inverted_command [of a c] by blast
qed

theorem inverted_fields_are_complement_witness:
  "nec_pulses 0 0x30 ! 18 = 560 \<and> nec_pulses 0 0x30 ! 19 = 1690
   \<and> nec_pulses 0 0x30 ! 64 = 560 \<and> nec_pulses 0 0x30 ! 65 = 1690
   \<and> spec_decode_byte (take 16 (drop 18 (nec_pulses 0 0x30))) = 0xFF
   \<and> spec_decode_byte (take 16 (drop 50 (nec_pulses 0 0x30))) = 0xCF"
proof -
  note t = inverted_fields_are_complement [of 0 "0x30"]
  from t have f: "\<forall>i<8. nec_pulses 0 0x30 ! (18 + 2 * i) = 560
        \<and> nec_pulses 0 0x30 ! (19 + 2 * i) = (if bit (0::int) i then 560 else 1690)
        \<and> nec_pulses 0 0x30 ! (50 + 2 * i) = 560
        \<and> nec_pulses 0 0x30 ! (51 + 2 * i) = (if bit (0x30::int) i then 560 else 1690)"
    by (rule conjunct1)
  have "(0::nat) < 8" and "(7::nat) < 8" by simp_all
  with f [rule_format, of 0] f [rule_format, of 7] t show ?thesis
    by simp
qed

text \<open>
  C2. Every field is sent least significant bit first: bit \<open>i\<close> of the byte stands at
  pair \<open>i\<close> of its field, so bit 0 comes first and bit 7 last. The address field starts
  at position 2, the inverted address at 18, the command at 34, the inverted command at
  50; the inverted fields carry the bits of the complement. For address 1 the first
  pair of the address field is (560, 1690), for address 128 it is (560, 560).
\<close>

theorem fields_lsb_first:
  "(\<forall>i<8. (nec_pulses a c ! (2 + 2 * i), nec_pulses a c ! (3 + 2 * i)) =
            (560, if bit a i then 1690 else 560)
        \<and> (nec_pulses a c ! (18 + 2 * i), nec_pulses a c ! (19 + 2 * i)) =
            (560, if bit (and (not a) 0xFF) i then 1690 else 560)
        \<and> (nec_pulses a c ! (34 + 2 * i), nec_pulses a c ! (35 + 2 * i)) =
            (560, if bit c i then 1690 else 560)
        \<and> (nec_pulses a c ! (50 + 2 * i), nec_pulses a c ! (51 + 2 * i)) =
            (560, if bit (and (not c) 0xFF) i then 1690 else 560))
   \<and> (nec_pulses 0x01 c ! 2, nec_pulses 0x01 c ! 3) = (560, 1690)
   \<and> (nec_pulses 0x80 c ! 2, nec_pulses 0x80 c ! 3) = (560, 560)"
proof -
  have "(nec_pulses a c ! (2 + 2 * i), nec_pulses a c ! (3 + 2 * i)) =
            (560, if bit a i then 1690 else 560)
        \<and> (nec_pulses a c ! (18 + 2 * i), nec_pulses a c ! (19 + 2 * i)) =
            (560, if bit (and (not a) 0xFF) i then 1690 else 560)
        \<and> (nec_pulses a c ! (34 + 2 * i), nec_pulses a c ! (35 + 2 * i)) =
            (560, if bit c i then 1690 else 560)
        \<and> (nec_pulses a c ! (50 + 2 * i), nec_pulses a c ! (51 + 2 * i)) =
            (560, if bit (and (not c) 0xFF) i then 1690 else 560)" if "i < 8" for i
    using field_entries [OF that, of a c]
      inverted_bit_space_complement [OF that, of a] inverted_bit_space_complement [OF that, of c]
    unfolding bit_space_eq prod.inject by (simp only:) 
  moreover have "(nec_pulses 0x01 c ! 2, nec_pulses 0x01 c ! 3) = (560, 1690)"
    and "(nec_pulses 0x80 c ! 2, nec_pulses 0x80 c ! 3) = (560, 560)"
    by (simp_all add: nec_pulses_entries bit_space_eq)
  ultimately show ?thesis by blast
qed

theorem fields_lsb_first_witness:
  "(nec_pulses 0x01 0x30 ! 2, nec_pulses 0x01 0x30 ! 3) = (560, 1690)
   \<and> (nec_pulses 0x01 0x30 ! 16, nec_pulses 0x01 0x30 ! 17) = (560, 560)
   \<and> (nec_pulses 0x01 0x30 ! 18, nec_pulses 0x01 0x30 ! 19) = (560, 560)
   \<and> (nec_pulses 0x01 0x30 ! 32, nec_pulses 0x01 0x30 ! 33) = (560, 1690)
   \<and> (nec_pulses 0x01 0x30 ! 34, nec_pulses 0x01 0x30 ! 35) = (560, 560)
   \<and> (nec_pulses 0x01 0x30 ! 42, nec_pulses 0x01 0x30 ! 43) = (560, 1690)
   \<and> (nec_pulses 0x01 0x30 ! 58, nec_pulses 0x01 0x30 ! 59) = (560, 560)
   \<and> (nec_pulses 0x80 0x30 ! 2, nec_pulses 0x80 0x30 ! 3) = (560, 560)"
proof -
  note t = fields_lsb_first [of "0x01" "0x30"]
  from t have f: "\<forall>i<8. (nec_pulses 0x01 0x30 ! (2 + 2 * i), nec_pulses 0x01 0x30 ! (3 + 2 * i)) =
            (560, if bit (0x01::int) i then 1690 else 560)
        \<and> (nec_pulses 0x01 0x30 ! (18 + 2 * i), nec_pulses 0x01 0x30 ! (19 + 2 * i)) =
            (560, if bit (and (not (0x01::int)) 0xFF) i then 1690 else 560)
        \<and> (nec_pulses 0x01 0x30 ! (34 + 2 * i), nec_pulses 0x01 0x30 ! (35 + 2 * i)) =
            (560, if bit (0x30::int) i then 1690 else 560)
        \<and> (nec_pulses 0x01 0x30 ! (50 + 2 * i), nec_pulses 0x01 0x30 ! (51 + 2 * i)) =
            (560, if bit (and (not (0x30::int)) 0xFF) i then 1690 else 560)"
    by (rule conjunct1)
  have "(0::nat) < 8" and "(4::nat) < 8" and "(7::nat) < 8" by simp_all
  with f [rule_format, of 0] f [rule_format, of 4] f [rule_format, of 7] t show ?thesis
    by simp
qed

text \<open>
  C3. Whatever the address and the command, the pulse list has exactly 67 entries:
  two for the header, two for each of the 32 bits, one for the stop mark.
\<close>

theorem nec_pulses_length: "length (nec_pulses address command) = 67"
  by (simp add: nec_pulses_entries)

text \<open>
  C4. The pulse list starts with the header mark 9000 and the header space 4500, and
  its last entry, the 67th, is the stop mark 560: no space follows it.
\<close>

theorem nec_pulses_header_and_stop:
  "take 2 (nec_pulses address command) = [9000, 4500]
   \<and> nec_pulses address command ! 0 = header_mark
   \<and> nec_pulses address command ! 1 = header_space
   \<and> last (nec_pulses address command) = 560
   \<and> nec_pulses address command ! 66 = bit_mark
   \<and> length (nec_pulses address command) = 67"
  by (simp add: nec_pulses_entries header_mark_def header_space_def bit_mark_def)

section \<open>What a call leaves in the world\<close>

text \<open>
  Requests are only ever appended to the history, the daemon and the printed lines are
  not touched by a request, and an exception that leaves a method is one the daemon
  raised.
\<close>

lemma pigpio_world: "pigpio c w = (r, w') \<Longrightarrow> w' = w\<lparr>calls := calls w @ [c]\<rparr>"
  by (auto simp add: pigpio_def Let_def split: reply.splits)

lemma pigpio_reply:
  "pigpio c w = (r, w') \<Longrightarrow>
     daemon w (calls w @ [c]) = (case r of Inl e \<Rightarrow> Raises e | Inr v \<Rightarrow> Returns v)"
  by (auto simp add: pigpio_def Let_def split: reply.splits)

lemma wait_tx_world:
  "wait_tx fuel w = Some (r, w') \<Longrightarrow>
     (\<exists>k. calls w' = calls w @ replicate (Suc k) Wave_tx_busy \<and> sleeps w' = sleeps w + k)
     \<and> stdout w' = stdout w \<and> daemon w' = daemon w"
proof (induction fuel arbitrary: w)
  case 0
  then show ?case by simp
next
  case (Suc fuel)
  obtain r1 w1 where p: "pigpio Wave_tx_busy w = (r1, w1)"
    by (cases "pigpio Wave_tx_busy w")
  note w1 = pigpio_world [OF p]
  show ?case
  proof (cases r1)
    case (Inl e)
    with Suc.prems p w1 show ?thesis
      by (auto intro: exI [of _ 0])
  next
    case (Inr busy)
    show ?thesis
    proof (cases "busy = 0")
      case True
      with Suc.prems p w1 Inr show ?thesis
        by (auto intro: exI [of _ 0])
    next
      case False
      with Suc.prems p Inr have "wait_tx fuel (sleep w1) = Some (r, w')"
        by simp
      from Suc.IH [OF this] obtain k where
        "calls w' = calls (sleep w1) @ replicate (Suc k) Wave_tx_busy"
        "sleeps w' = sleeps (sleep w1) + k"
        "stdout w' = stdout (sleep w1)" "daemon w' = daemon (sleep w1)"
        by blast
      with w1 show ?thesis
        by (auto simp add: sleep_def replicate_app_Cons_same intro: exI [of _ "Suc k"])
    qed
  qed
qed

lemma send_raw_code_world:
  assumes "send_raw_code self ps fuel w = Some (r, w')"
  shows "(\<exists>cs. calls w' = calls w @ Wave_clear # cs \<and> (\<forall>p f d. Hardware_PWM p f d \<notin> set cs))
     \<and> stdout w' = stdout w \<and> daemon w' = daemon w"
  using assms unfolding send_raw_code_def
  by (auto split: prod.splits sum.splits option.splits if_splits
      dest!: pigpio_world wait_tx_world)


lemma send_nec_command_world:
  assumes "send_nec_command self a c fuel w = Some (r, w')"
  shows "(\<exists>cs. calls w' = calls w @ Hardware_PWM (gpio_pin self) (carrier_freq self) 500000 # cs)
     \<and> stdout w' = stdout w \<and> daemon w' = daemon w"
  using assms unfolding send_nec_command_def Let_def
  by (auto split: prod.splits sum.splits option.splits
      dest!: pigpio_world send_raw_code_world)

lemma carrier_off_iff:
  assumes "send_nec_command self a c fuel w = Some (r, w')"
  shows "Hardware_PWM (gpio_pin self) 0 0 \<in> set (drop (length (calls w)) (calls w')) \<longleftrightarrow>
     (\<exists>v w1 w2. pigpio (Hardware_PWM (gpio_pin self) (carrier_freq self) 500000) w = (Inr v, w1)
        \<and> send_raw_code self (nec_pulses a c) fuel w1 = Some (Inr (), w2))"
  using assms unfolding send_nec_command_def Let_def
  by (auto split: prod.splits sum.splits option.splits
      dest!: pigpio_world send_raw_code_world)

lemma carrier_off_last:
  assumes "send_nec_command self a c fuel w = Some (Inr (), w')"
  shows "last (calls w') = Hardware_PWM (gpio_pin self) 0 0"
  using assms unfolding send_nec_command_def Let_def
  by (auto split: prod.splits sum.splits option.splits
      dest!: pigpio_world)

lemma raised_propagates:
  assumes "send_nec_command self a c fuel w = Some (r, w')"
  shows "(pigpio (Hardware_PWM (gpio_pin self) (carrier_freq self) 500000) w = (Inl e, w1)
           \<longrightarrow> r = Inl e \<and> w' = w1)
       \<and> (pigpio (Hardware_PWM (gpio_pin self) (carrier_freq self) 500000) w = (Inr v, w1)
           \<and> send_raw_code self (nec_pulses a c) fuel w1 = Some (Inl e, w2)
           \<longrightarrow> r = Inl e \<and> w' = w2)"
  using assms unfolding send_nec_command_def Let_def
  by (auto split: prod.splits sum.splits option.splits)

lemma pigpio_raises: "pigpio c w = (Inl e, w') \<Longrightarrow> daemon w (calls w @ [c]) = Raises e"
  by (drule pigpio_reply) simp

lemma wait_tx_raises:
  "wait_tx fuel w = Some (Inl e, w') \<Longrightarrow> \<exists>cs. daemon w cs = Raises e"
proof (induction fuel arbitrary: w)
  case 0
  then show ?case by simp
next
  case (Suc fuel)
  obtain r1 w1 where p: "pigpio Wave_tx_busy w = (r1, w1)"
    by (cases "pigpio Wave_tx_busy w")
  show ?case
  proof (cases r1)
    case (Inl e1)
    with Suc.prems p show ?thesis
      by (auto dest: pigpio_raises)
  next
    case (Inr busy)
    with Suc.prems p have "busy \<noteq> 0" and "wait_tx fuel (sleep w1) = Some (Inl e, w')"
      by (auto split: if_splits)
    from Suc.IH [OF this(2)] obtain cs where "daemon (sleep w1) cs = Raises e" ..
    with pigpio_world [OF p] show ?thesis
      by (auto simp add: sleep_def)
  qed
qed

lemma pigpio_step:
  "pigpio c w = (r, w') \<Longrightarrow>
     daemon w' = daemon w \<and> (\<forall>e. r = Inl e \<longrightarrow> (\<exists>cs. daemon w cs = Raises e))"
  by (auto simp add: pigpio_def Let_def split: reply.splits)

lemma wait_tx_step:
  "wait_tx fuel w = Some (r, w') \<Longrightarrow>
     daemon w' = daemon w \<and> (\<forall>e. r = Inl e \<longrightarrow> (\<exists>cs. daemon w cs = Raises e))"
  using wait_tx_world [of fuel w r w'] wait_tx_raises [of fuel w _ w'] by blast

lemma send_raw_code_raises:
  assumes "send_raw_code self ps fuel w = Some (Inl e, w')"
  shows "\<exists>cs. daemon w cs = Raises e"
  using assms unfolding send_raw_code_def
  by (auto split: prod.splits sum.splits option.splits if_splits
      dest!: pigpio_step wait_tx_step)

lemma send_raw_code_step:
  "send_raw_code self ps fuel w = Some (r, w') \<Longrightarrow>
     daemon w' = daemon w \<and> (\<forall>e. r = Inl e \<longrightarrow> (\<exists>cs. daemon w cs = Raises e))"
  using send_raw_code_world [of self ps fuel w r w'] send_raw_code_raises [of self ps fuel w _ w']
  by blast

lemma send_nec_command_raises:
  assumes "send_nec_command self a c fuel w = Some (Inl e, w')"
  shows "\<exists>cs. daemon w cs = Raises e"
  using assms unfolding send_nec_command_def Let_def
  by (auto split: prod.splits sum.splits option.splits
      dest!: pigpio_step send_raw_code_step)

lemma nec_pulses_67: "length (nec_pulses a c) = 67"
  by (simp add: nec_pulses_entries)

lemma bit_space_mod: "i < 8 \<Longrightarrow> bit_space (byte mod 256) i = bit_space byte i"
  using bit_take_bit_iff [of 8 byte i] by (simp add: bit_space_eq take_bit_eq_mod)

lemma inverted_bit_space_mod:
  "i < 8 \<Longrightarrow> inverted_bit_space (byte mod 256) i = inverted_bit_space byte i"
  using bit_take_bit_iff [of 8 byte i] by (simp add: inverted_bit_space_eq take_bit_eq_mod)

lemma nec_pulses_mod: "nec_pulses (a mod 256) (c mod 256) = nec_pulses a c"
  by (simp add: nec_pulses_entries bit_space_mod inverted_bit_space_mod)

lemma str_examples: "str 16 = ''16''" "str 24 = ''24''" "str 30 = ''30''"
  by code_simp+

lemma send_nec_command_touches:
  "send_nec_command self a c fuel w = Some (r, w') \<Longrightarrow> calls w' \<noteq> calls w"
  by (drule send_nec_command_world) auto

text \<open>
  The bound on the polls. A result does not depend on the bound once the bound is
  large enough, and a call returns or raises under every bound that exceeds the
  number of polls the daemon answers with busy: \<open>None\<close> stands for a wait that has not
  ended, never for an outcome of the method.
\<close>

lemma wait_tx_more_fuel:
  "wait_tx fuel w = Some x \<Longrightarrow> wait_tx (fuel + n) w = Some x"
proof (induction fuel arbitrary: w)
  case 0
  then show ?case by simp
next
  case (Suc fuel)
  then show ?case
    by (auto split: prod.splits sum.splits if_splits)
qed

lemma send_raw_code_more_fuel:
  "send_raw_code self ps fuel w = Some x \<Longrightarrow> send_raw_code self ps (fuel + n) w = Some x"
  unfolding send_raw_code_def
  by (auto split: prod.splits sum.splits option.splits if_splits
      dest: wait_tx_more_fuel [where n = n])

lemma send_nec_command_more_fuel:
  "send_nec_command self a c fuel w = Some x \<Longrightarrow>
     send_nec_command self a c (fuel + n) w = Some x"
  unfolding send_nec_command_def Let_def
  by (auto split: prod.splits sum.splits option.splits
      dest: send_raw_code_more_fuel [where n = n])

lemma wait_tx_returns:
  "k < fuel \<Longrightarrow>
   daemon w (calls w @ replicate (Suc k) Wave_tx_busy) = Returns 0
     \<or> (\<exists>e. daemon w (calls w @ replicate (Suc k) Wave_tx_busy) = Raises e) \<Longrightarrow>
   \<exists>x. wait_tx fuel w = Some x"
proof (induction fuel arbitrary: w k)
  case 0
  then show ?case by simp
next
  case (Suc fuel)
  obtain r1 w1 where p: "pigpio Wave_tx_busy w = (r1, w1)"
    by (cases "pigpio Wave_tx_busy w")
  note w1 = pigpio_world [OF p]
  show ?case
  proof (cases r1)
    case (Inl e)
    with p show ?thesis by simp
  next
    case (Inr busy)
    show ?thesis
    proof (cases "busy = 0")
      case True
      with p Inr show ?thesis by simp
    next
      case False
      from p Inr have "daemon w (calls w @ [Wave_tx_busy]) = Returns busy"
        by (auto simp add: pigpio_def Let_def split: reply.splits)
      with False Suc.prems(2) have "k \<noteq> 0"
        by (cases k) auto
      then obtain j where k: "k = Suc j"
        by (cases k) auto
      have "daemon (sleep w1) (calls (sleep w1) @ replicate (Suc j) Wave_tx_busy) =
          daemon w (calls w @ replicate (Suc k) Wave_tx_busy)"
        by (simp add: sleep_def w1 k replicate_app_Cons_same)
      with Suc.prems k have "\<exists>x. wait_tx fuel (sleep w1) = Some x"
        by (intro Suc.IH [of j]) auto
      with p Inr False show ?thesis by simp
    qed
  qed
qed

lemma send_raw_code_returns:
  assumes "\<And>h. \<exists>k<fuel. daemon w (h @ replicate (Suc k) Wave_tx_busy) = Returns 0
              \<or> (\<exists>e. daemon w (h @ replicate (Suc k) Wave_tx_busy) = Raises e)"
  shows "\<exists>x. send_raw_code self ps fuel w = Some x"
proof -
  have "\<exists>x. wait_tx fuel v = Some x" if "daemon v = daemon w" for v
  proof -
    from assms [of "calls v"] that obtain k where "k < fuel"
      and "daemon v (calls v @ replicate (Suc k) Wave_tx_busy) = Returns 0
        \<or> (\<exists>e. daemon v (calls v @ replicate (Suc k) Wave_tx_busy) = Raises e)"
      by auto
    then show ?thesis by (rule wait_tx_returns)
  qed
  then show ?thesis
    unfolding send_raw_code_def
    by (fastforce split: prod.splits sum.splits option.splits dest!: pigpio_step)
qed

lemma send_nec_command_returns:
  assumes "\<And>h. \<exists>k<fuel. daemon w (h @ replicate (Suc k) Wave_tx_busy) = Returns 0
              \<or> (\<exists>e. daemon w (h @ replicate (Suc k) Wave_tx_busy) = Raises e)"
  shows "\<exists>x. send_nec_command self a c fuel w = Some x"
proof -
  have "\<exists>x. send_raw_code self (nec_pulses a c) fuel v = Some x" if "daemon v = daemon w" for v
    using assms that by (intro send_raw_code_returns) simp
  then show ?thesis
    unfolding send_nec_command_def Let_def
    by (fastforce split: prod.splits sum.splits option.splits dest!: pigpio_step)
qed

text \<open>
  The printed lines play no part in what the daemon is asked: a call in a world with
  other lines printed makes the same requests and ends the same way.
\<close>

lemma pigpio_stdout:
  "pigpio c (stdout_update f w) = apsnd (stdout_update f) (pigpio c w)"
  by (simp add: pigpio_def Let_def split: reply.splits)

lemma wait_tx_stdout:
  "wait_tx fuel (stdout_update f w) = map_option (apsnd (stdout_update f)) (wait_tx fuel w)"
proof (induction fuel arbitrary: w)
  case 0
  then show ?case by simp
next
  case (Suc fuel)
  have "sleep (stdout_update f v) = stdout_update f (sleep v)" for v
    by (simp add: sleep_def)
  with Suc.IH show ?case
    by (simp add: pigpio_stdout split: prod.splits sum.splits)
qed

lemma send_raw_code_stdout:
  "send_raw_code self ps fuel (stdout_update f w) =
     map_option (apsnd (stdout_update f)) (send_raw_code self ps fuel w)"
  by (simp add: send_raw_code_def pigpio_stdout wait_tx_stdout
      split: prod.splits sum.splits option.splits)

lemma send_nec_command_stdout:
  "send_nec_command self a c fuel (stdout_update f w) =
     map_option (apsnd (stdout_update f)) (send_nec_command self a c fuel w)"
  by (simp add: send_nec_command_def Let_def pigpio_stdout send_raw_code_stdout
      split: prod.splits sum.splits option.splits)

lemma send_nec_command_print:
  "map_option (\<lambda>(r, w'). (r, calls w', sleeps w')) (send_nec_command self a c fuel (print l w)) =
   map_option (\<lambda>(r, w'). (r, calls w', sleeps w')) (send_nec_command self a c fuel w)"
  by (cases "send_nec_command self a c fuel w")
    (auto simp add: print_def send_nec_command_stdout)

lemma lower_examples:
  "lower ''COOL'' = ''cool''" "lower ''Cool'' = ''cool''" "lower ''cool'' = ''cool''"
  "lower ''HIGH'' = ''high''" "lower ''turbo'' = ''turbo''"
  by code_simp+

lemma modes_None:
  "map_of modes k = None \<longleftrightarrow> k \<notin> {''cool'', ''heat'', ''fan'', ''dry'', ''auto''}"
  by (simp add: modes_def)

lemma speeds_None:
  "map_of speeds k = None \<longleftrightarrow> k \<notin> {''low'', ''medium'', ''high'', ''auto''}"
  by (simp add: speeds_def)

lemma modes_key_lower: "map_of modes k = Some cmd \<Longrightarrow> lower k = k"
  by (auto simp add: modes_def lower_def lower_char_def split: if_splits)

lemma speeds_key_lower: "map_of speeds k = Some cmd \<Longrightarrow> lower k = k"
  by (auto simp add: speeds_def lower_def lower_char_def split: if_splits)

lemma set_mode_known:
  "map_of modes (lower mode) = Some cmd \<Longrightarrow>
     set_mode self mode fuel w =
       send_nec_command self 0x00 cmd fuel (print (''Setting mode to '' @ mode @ ''...'') w)"
  by (simp add: set_mode_def)

lemma set_fan_speed_known:
  "map_of speeds (lower speed) = Some cmd \<Longrightarrow>
     set_fan_speed self speed fuel w =
       send_nec_command self 0x00 cmd fuel
         (print (''Setting fan speed to '' @ speed @ ''...'') w)"
  by (simp add: set_fan_speed_def)

lemma set_mode_unknown:
  "map_of modes (lower mode) = None \<Longrightarrow>
     set_mode self mode fuel w =
       Some (Inr (), print (''Invalid mode. Choose from: '' @ str_keys modes) w)"
  by (simp add: set_mode_def)

lemma set_fan_speed_unknown:
  "map_of speeds (lower speed) = None \<Longrightarrow>
     set_fan_speed self speed fuel w =
       Some (Inr (), print (''Invalid speed. Choose from: '' @ str_keys speeds) w)"
  by (simp add: set_fan_speed_def)

lemma set_mode_untouched:
  assumes "set_mode self mode fuel w = Some (r, w')"
  shows "calls w' = calls w \<longleftrightarrow> map_of modes (lower mode) = None"
proof (cases "map_of modes (lower mode)")
  case None
  from set_mode_unknown [OF this] assms show ?thesis
    using None by (auto simp add: print_def)
next
  case (Some cmd)
  from set_mode_known [OF this] assms
  have "send_nec_command self 0x00 cmd fuel (print (''Setting mode to '' @ mode @ ''...'') w)
      = Some (r, w')"
    by simp
  from send_nec_command_touches [OF this] Some show ?thesis
    by (simp add: print_def)
qed

lemma set_fan_speed_untouched:
  assumes "set_fan_speed self speed fuel w = Some (r, w')"
  shows "calls w' = calls w \<longleftrightarrow> map_of speeds (lower speed) = None"
proof (cases "map_of speeds (lower speed)")
  case None
  from set_fan_speed_unknown [OF this] assms show ?thesis
    using None by (auto simp add: print_def)
next
  case (Some cmd)
  from set_fan_speed_known [OF this] assms
  have "send_nec_command self 0x00 cmd fuel
         (print (''Setting fan speed to '' @ speed @ ''...'') w) = Some (r, w')"
    by simp
  from send_nec_command_touches [OF this] Some show ?thesis
    by (simp add: print_def)
qed

lemma str_keys_modes:
  "str_keys modes = ''['' @ [CHR 0x27] @ ''cool'' @ [CHR 0x27] @ '', '' @ [CHR 0x27] @ ''heat''
     @ [CHR 0x27] @ '', '' @ [CHR 0x27] @ ''fan'' @ [CHR 0x27] @ '', '' @ [CHR 0x27] @ ''dry''
     @ [CHR 0x27] @ '', '' @ [CHR 0x27] @ ''auto'' @ [CHR 0x27] @ '']''"
  by (simp add: str_keys_def modes_def repr_str_def)

lemma map_delay_wave_pulses: "map delay (wave_pulses self ps) = ps"
  by (simp add: wave_pulses_def o_def if_distrib map_nth cong: if_cong)

section \<open>The commands\<close>

text \<open>
  C5, as the source has it. \<open>set_temperature\<close> turns a temperature down exactly when
  it is below 16 or above 30. Turning it down is a printed line and a normal return,
  the same \<^verbatim>\<open>None\<close> a successful call returns, so no error value reaches the caller;
  nothing is encoded and the daemon receives no request. Any other temperature is
  sent with address 0 and command \<open>0x10 + (temp - 16)\<close>: 16 gives \<open>0x10\<close>, 30 gives
  \<open>0x1E\<close>.
\<close>

theorem set_temperature_range:
  "(temp < 16 \<or> 30 < temp \<longrightarrow>
      set_temperature self temp fuel w =
        Some (Inr (), print (''Temperature out of range (16-30'' @ [degree_sign] @ ''C)'') w))
   \<and> (16 \<le> temp \<and> temp \<le> 30 \<longrightarrow>
      set_temperature self temp fuel w =
        send_nec_command self 0x00 (0x10 + (temp - 16)) fuel
          (print (''Setting temperature to '' @ str temp @ [degree_sign] @ ''C...'') w))
   \<and> (\<forall>r w'. set_temperature self temp fuel w = Some (r, w') \<longrightarrow>
        (calls w' = calls w \<longleftrightarrow> temp < 16 \<or> 30 < temp))
   \<and> set_temperature self 16 fuel w =
        send_nec_command self 0x00 0x10 fuel
          (print (''Setting temperature to 16'' @ [degree_sign] @ ''C...'') w)
   \<and> set_temperature self 30 fuel w =
        send_nec_command self 0x00 0x1E fuel
          (print (''Setting temperature to 30'' @ [degree_sign] @ ''C...'') w)"
proof -
  have rejected: "set_temperature self temp fuel w =
        Some (Inr (), print (''Temperature out of range (16-30'' @ [degree_sign] @ ''C)'') w)"
    if "temp < 16 \<or> 30 < temp"
    using that by (auto simp add: set_temperature_def)
  have accepted: "set_temperature self t fuel w =
        send_nec_command self 0x00 (0x10 + (t - 16)) fuel
          (print (''Setting temperature to '' @ str t @ [degree_sign] @ ''C...'') w)"
    if "16 \<le> t \<and> t \<le> 30" for t
    using that by (simp add: set_temperature_def Let_def)
  have "calls w' = calls w \<longleftrightarrow> temp < 16 \<or> 30 < temp"
    if run: "set_temperature self temp fuel w = Some (r, w')" for r w'
  proof (cases "temp < 16 \<or> 30 < temp")
    case True
    with rejected run show ?thesis by (auto simp add: print_def)
  next
    case False
    then have "16 \<le> temp \<and> temp \<le> 30" by simp
    from accepted [OF this] run have "send_nec_command self 0x00 (0x10 + (temp - 16)) fuel
          (print (''Setting temperature to '' @ str temp @ [degree_sign] @ ''C...'') w)
        = Some (r, w')"
      by simp
    from send_nec_command_touches [OF this] False show ?thesis
      by (simp add: print_def)
  qed
  moreover from accepted [of 16] accepted [of 30]
  have "set_temperature self 16 fuel w =
        send_nec_command self 0x00 0x10 fuel
          (print (''Setting temperature to 16'' @ [degree_sign] @ ''C...'') w)"
    and "set_temperature self 30 fuel w =
        send_nec_command self 0x00 0x1E fuel
          (print (''Setting temperature to 30'' @ [degree_sign] @ ''C...'') w)"
    by (simp_all add: str_examples)
  ultimately show ?thesis
    using rejected accepted [of temp] by blast
qed

theorem set_temperature_range_witness:
  "set_temperature ac 15 1 (fresh_world willing_daemon) =
     Some (Inr (), \<lparr>stdout = [''Temperature out of range (16-30'' @ [degree_sign] @ ''C)''],
                   calls = [], sleeps = 0, daemon = willing_daemon\<rparr>)
   \<and> set_temperature ac 31 1 (fresh_world willing_daemon) =
     Some (Inr (), \<lparr>stdout = [''Temperature out of range (16-30'' @ [degree_sign] @ ''C)''],
                   calls = [], sleeps = 0, daemon = willing_daemon\<rparr>)
   \<and> set_temperature ac 24 1 (fresh_world willing_daemon) =
     Some (Inr (),
       \<lparr>stdout = [''Setting temperature to 24'' @ [degree_sign] @ ''C...''],
        calls = [Hardware_PWM 17 38000 500000, Wave_clear,
                 Wave_add_generic (wave_pulses ac (nec_pulses 0x00 0x18)), Wave_create,
                 Wave_send_once 0, Wave_tx_busy, Wave_delete 0, Hardware_PWM 17 0 0],
        sleeps = 0, daemon = willing_daemon\<rparr>)"
proof -
  have "(15::int) < 16 \<or> 30 < (15::int)" and "(31::int) < 16 \<or> 30 < (31::int)"
    and "(16::int) \<le> 24 \<and> (24::int) \<le> 30"
    by simp_all
  with set_temperature_range [of 15 ac 1 "fresh_world willing_daemon"]
    set_temperature_range [of 31 ac 1 "fresh_world willing_daemon"]
    set_temperature_range [of 24 ac 1 "fresh_world willing_daemon"]
  show ?thesis
    by (simp add: str_examples print_def fresh_world_def send_nec_command_def send_raw_code_def
        pigpio_def willing_daemon_def ac_def Let_def)
qed

text \<open>
  The claim as the specification words it, a failure with \<open>OutOfRange\<close> reported to the
  caller, does not hold: the call for 15 degrees returns normally, with the value the
  call for 24 degrees returns.
\<close>

theorem set_temperature_no_error_counterexample:
  "map_option fst (set_temperature ac 15 1 (fresh_world willing_daemon)) = Some (Inr ())
   \<and> map_option fst (set_temperature ac 24 1 (fresh_world willing_daemon)) = Some (Inr ())"
  by (simp add: set_temperature_def print_def fresh_world_def send_nec_command_def
      send_raw_code_def pigpio_def willing_daemon_def ac_def Let_def)

text \<open>
  C6, as the source has it. \<open>send_nec_command\<close> asks for the carrier first, and asks
  for the carrier to be switched off exactly when switching it on and sending the frame
  both returned normally; on a normal return that request is the last one made. An
  exception raised by switching the carrier on or by sending the frame leaves the
  method at once, unchanged, and the carrier is not switched off.
\<close>

theorem carrier_off_only_after_success:
  assumes "send_nec_command self a c fuel w = Some (r, w')"
  shows "(\<exists>cs. calls w' =
            calls w @ Hardware_PWM (gpio_pin self) (carrier_freq self) 500000 # cs)
     \<and> (Hardware_PWM (gpio_pin self) 0 0 \<in> set (drop (length (calls w)) (calls w')) \<longleftrightarrow>
          (\<exists>v w1 w2.
             pigpio (Hardware_PWM (gpio_pin self) (carrier_freq self) 500000) w = (Inr v, w1)
             \<and> send_raw_code self (nec_pulses a c) fuel w1 = Some (Inr (), w2)))
     \<and> (r = Inr () \<longrightarrow> last (calls w') = Hardware_PWM (gpio_pin self) 0 0)
     \<and> (\<forall>e w1. pigpio (Hardware_PWM (gpio_pin self) (carrier_freq self) 500000) w = (Inl e, w1)
           \<longrightarrow> r = Inl e \<and> w' = w1)
     \<and> (\<forall>e v w1 w2.
           pigpio (Hardware_PWM (gpio_pin self) (carrier_freq self) 500000) w = (Inr v, w1)
           \<and> send_raw_code self (nec_pulses a c) fuel w1 = Some (Inl e, w2)
           \<longrightarrow> r = Inl e \<and> w' = w2)"
proof -
  from assms have "r = Inr () \<longrightarrow> send_nec_command self a c fuel w = Some (Inr (), w')"
    by simp
  then have "r = Inr () \<longrightarrow> last (calls w') = Hardware_PWM (gpio_pin self) 0 0"
    using carrier_off_last [of self a c fuel w w'] by blast
  then show ?thesis
    using send_nec_command_world [OF assms] carrier_off_iff [OF assms]
      raised_propagates [OF assms]
    by blast
qed

theorem carrier_off_only_after_success_witness:
  "send_nec_command ac 0x00 0x08 1 (fresh_world willing_daemon) =
     Some (Inr (),
       \<lparr>stdout = [],
        calls = [Hardware_PWM 17 38000 500000, Wave_clear,
                 Wave_add_generic (wave_pulses ac (nec_pulses 0x00 0x08)), Wave_create,
                 Wave_send_once 0, Wave_tx_busy, Wave_delete 0, Hardware_PWM 17 0 0],
        sleeps = 0, daemon = willing_daemon\<rparr>)
   \<and> last [Hardware_PWM 17 38000 500000, Wave_clear,
            Wave_add_generic (wave_pulses ac (nec_pulses 0x00 0x08)), Wave_create,
            Wave_send_once 0, Wave_tx_busy, Wave_delete 0, Hardware_PWM 17 0 0]
       = Hardware_PWM (gpio_pin ac) 0 0
   \<and> send_nec_command ac 0x00 0x08 1 (fresh_world refusing_wave_create) =
     Some (Inl (Pigpio_error ''No more CBs for waveform''),
       \<lparr>stdout = [],
        calls = [Hardware_PWM 17 38000 500000, Wave_clear,
                 Wave_add_generic (wave_pulses ac (nec_pulses 0x00 0x08)), Wave_create],
        sleeps = 0, daemon = refusing_wave_create\<rparr>)
   \<and> Hardware_PWM (gpio_pin ac) 0 0 \<notin> set [Hardware_PWM 17 38000 500000, Wave_clear,
            Wave_add_generic (wave_pulses ac (nec_pulses 0x00 0x08)), Wave_create]"
proof -
  have good: "send_nec_command ac 0x00 0x08 1 (fresh_world willing_daemon) =
     Some (Inr (),
       \<lparr>stdout = [],
        calls = [Hardware_PWM 17 38000 500000, Wave_clear,
                 Wave_add_generic (wave_pulses ac (nec_pulses 0x00 0x08)), Wave_create,
                 Wave_send_once 0, Wave_tx_busy, Wave_delete 0, Hardware_PWM 17 0 0],
        sleeps = 0, daemon = willing_daemon\<rparr>)"
    by (simp add: send_nec_command_def send_raw_code_def pigpio_def fresh_world_def
        willing_daemon_def ac_def Let_def)
  have bad: "send_nec_command ac 0x00 0x08 1 (fresh_world refusing_wave_create) =
     Some (Inl (Pigpio_error ''No more CBs for waveform''),
       \<lparr>stdout = [],
        calls = [Hardware_PWM 17 38000 500000, Wave_clear,
                 Wave_add_generic (wave_pulses ac (nec_pulses 0x00 0x08)), Wave_create],
        sleeps = 0, daemon = refusing_wave_create\<rparr>)"
    by (simp add: send_nec_command_def send_raw_code_def pigpio_def fresh_world_def
        refusing_wave_create_def ac_def Let_def)
  have no_success: "\<not> (\<exists>v w1 w2.
      pigpio (Hardware_PWM (gpio_pin ac) (carrier_freq ac) 500000)
        (fresh_world refusing_wave_create) = (Inr v, w1)
      \<and> send_raw_code ac (nec_pulses 0x00 0x08) 1 w1 = Some (Inr (), w2))"
    by (auto simp add: send_raw_code_def pigpio_def fresh_world_def
        refusing_wave_create_def Let_def)
  from carrier_off_only_after_success [OF good]
  have "last [Hardware_PWM 17 38000 500000, Wave_clear,
            Wave_add_generic (wave_pulses ac (nec_pulses 0x00 0x08)), Wave_create,
            Wave_send_once 0, Wave_tx_busy, Wave_delete 0, Hardware_PWM 17 0 0]
       = Hardware_PWM (gpio_pin ac) 0 0"
    by simp
  moreover from carrier_off_only_after_success [OF bad] no_success
  have "Hardware_PWM (gpio_pin ac) 0 0 \<notin> set [Hardware_PWM 17 38000 500000, Wave_clear,
            Wave_add_generic (wave_pulses ac (nec_pulses 0x00 0x08)), Wave_create]"
    by (simp add: fresh_world_def)
  ultimately show ?thesis
    using good bad by simp
qed

text \<open>
  The claim as the specification words it, that the carrier is switched off on every
  exit path, does not hold: when the daemon raises at \<^verbatim>\<open>wave_create\<close> the exception
  leaves the method after four requests, none of which switches the carrier off.
\<close>

theorem carrier_left_on_counterexample:
  "send_nec_command ac 0x00 0x08 1 (fresh_world refusing_wave_create) =
     Some (Inl (Pigpio_error ''No more CBs for waveform''),
       \<lparr>stdout = [],
        calls = [Hardware_PWM 17 38000 500000, Wave_clear,
                 Wave_add_generic (wave_pulses ac (nec_pulses 0x00 0x08)), Wave_create],
        sleeps = 0, daemon = refusing_wave_create\<rparr>)
   \<and> Hardware_PWM 17 0 0 \<notin> set [Hardware_PWM 17 38000 500000, Wave_clear,
                 Wave_add_generic (wave_pulses ac (nec_pulses 0x00 0x08)), Wave_create]"
  by (simp add: send_nec_command_def send_raw_code_def pigpio_def fresh_world_def
      refusing_wave_create_def ac_def Let_def)

text \<open>
  C7, as the source has it. A mode or a fan speed whose lower-case form is not a key
  of the table is turned down by a printed line and a normal return, the same
  \<^verbatim>\<open>None\<close> a successful call returns, so no error value reaches the caller; no command
  is looked up and the daemon receives no request. A call that returns leaves the
  requests as they were exactly in that case.
\<close>

theorem unknown_value_is_only_printed:
  "(lower mode \<notin> {''cool'', ''heat'', ''fan'', ''dry'', ''auto''} \<longrightarrow>
      set_mode self mode fuel w =
        Some (Inr (), print (''Invalid mode. Choose from: '' @ str_keys modes) w))
   \<and> (lower speed \<notin> {''low'', ''medium'', ''high'', ''auto''} \<longrightarrow>
      set_fan_speed self speed fuel w =
        Some (Inr (), print (''Invalid speed. Choose from: '' @ str_keys speeds) w))
   \<and> (\<forall>r w'. set_mode self mode fuel w = Some (r, w') \<longrightarrow>
        (calls w' = calls w \<longleftrightarrow> lower mode \<notin> {''cool'', ''heat'', ''fan'', ''dry'', ''auto''}))
   \<and> (\<forall>r w'. set_fan_speed self speed fuel w = Some (r, w') \<longrightarrow>
        (calls w' = calls w \<longleftrightarrow> lower speed \<notin> {''low'', ''medium'', ''high'', ''auto''}))"
  using set_mode_unknown [of mode self fuel w] set_fan_speed_unknown [of speed self fuel w]
    set_mode_untouched [of self mode fuel w] set_fan_speed_untouched [of self speed fuel w]
  unfolding modes_None speeds_None by blast

theorem unknown_value_is_only_printed_witness:
  "set_mode ac ''turbo'' 1 (fresh_world willing_daemon) =
     Some (Inr (), \<lparr>stdout = [''Invalid mode. Choose from: '' @ str_keys modes],
                   calls = [], sleeps = 0, daemon = willing_daemon\<rparr>)
   \<and> set_fan_speed ac ''turbo'' 1 (fresh_world willing_daemon) =
     Some (Inr (), \<lparr>stdout = [''Invalid speed. Choose from: '' @ str_keys speeds],
                   calls = [], sleeps = 0, daemon = willing_daemon\<rparr>)"
proof -
  have "lower ''turbo'' \<notin> {''cool'', ''heat'', ''fan'', ''dry'', ''auto''}"
    and "lower ''turbo'' \<notin> {''low'', ''medium'', ''high'', ''auto''}"
    by (simp_all add: lower_examples)
  with unknown_value_is_only_printed [where mode = "''turbo''" and speed = "''turbo''"
      and self = ac and fuel = 1 and w = "fresh_world willing_daemon"]
  show ?thesis
    by (simp add: print_def fresh_world_def)
qed

text \<open>
  The claim as the specification words it, a failure with \<open>UnknownEnumValue\<close> reported
  to the caller, does not hold: the calls for the unknown word return normally, with
  the value the call for a known mode returns.
\<close>

theorem unknown_value_no_error_counterexample:
  "map_option fst (set_mode ac ''turbo'' 1 (fresh_world willing_daemon)) = Some (Inr ())
   \<and> map_option fst (set_fan_speed ac ''turbo'' 1 (fresh_world willing_daemon)) = Some (Inr ())
   \<and> map_option fst (set_mode ac ''cool'' 1 (fresh_world willing_daemon)) = Some (Inr ())"
  by (simp add: set_mode_def set_fan_speed_def lower_examples modes_def speeds_def
      print_def fresh_world_def send_nec_command_def send_raw_code_def pigpio_def
      willing_daemon_def ac_def Let_def)

text \<open>
  C8. \<open>power_on\<close> sends command \<open>0x08\<close> and \<open>power_off\<close> sends command \<open>0x09\<close>, both
  with address \<open>0x00\<close>: with a daemon that accepts every request, the wave handed over
  carries the frame of that address and command, whose address field reads 0 and whose
  command field reads 8, respectively 9.
\<close>

theorem power_commands:
  "power_on self fuel w =
     send_nec_command self 0x00 0x08 fuel (print ''Sending Power ON command...'' w)
   \<and> power_off self fuel w =
     send_nec_command self 0x00 0x09 fuel (print ''Sending Power OFF command...'' w)
   \<and> power_on self 1 (fresh_world willing_daemon) =
     Some (Inr (),
       \<lparr>stdout = [''Sending Power ON command...''],
        calls = [Hardware_PWM (gpio_pin self) (carrier_freq self) 500000, Wave_clear,
                 Wave_add_generic (wave_pulses self (nec_pulses 0x00 0x08)), Wave_create,
                 Wave_send_once 0, Wave_tx_busy, Wave_delete 0,
                 Hardware_PWM (gpio_pin self) 0 0],
        sleeps = 0, daemon = willing_daemon\<rparr>)
   \<and> power_off self 1 (fresh_world willing_daemon) =
     Some (Inr (),
       \<lparr>stdout = [''Sending Power OFF command...''],
        calls = [Hardware_PWM (gpio_pin self) (carrier_freq self) 500000, Wave_clear,
                 Wave_add_generic (wave_pulses self (nec_pulses 0x00 0x09)), Wave_create,
                 Wave_send_once 0, Wave_tx_busy, Wave_delete 0,
                 Hardware_PWM (gpio_pin self) 0 0],
        sleeps = 0, daemon = willing_daemon\<rparr>)
   \<and> map delay (wave_pulses self (nec_pulses 0x00 0x08)) = nec_pulses 0x00 0x08
   \<and> map delay (wave_pulses self (nec_pulses 0x00 0x09)) = nec_pulses 0x00 0x09
   \<and> spec_decode_byte (take 16 (drop 2 (nec_pulses 0x00 0x08))) = 0x00
   \<and> spec_decode_byte (take 16 (drop 34 (nec_pulses 0x00 0x08))) = 0x08
   \<and> spec_decode_byte (take 16 (drop 2 (nec_pulses 0x00 0x09))) = 0x00
   \<and> spec_decode_byte (take 16 (drop 34 (nec_pulses 0x00 0x09))) = 0x09"
  by (simp add: power_on_def power_off_def map_delay_wave_pulses decode_address decode_command
      print_def fresh_world_def send_nec_command_def send_raw_code_def pigpio_def
      willing_daemon_def Let_def)

text \<open>
  C9. The lookup ignores case. Whenever the lower-case form of \<open>s\<close> is a key of the
  table, \<open>set_mode s\<close> sends the command of that key, as \<open>set_mode (lower s)\<close> does: the
  two calls end the same way and make the same requests, and differ only in the line
  they print, which shows the word as it was given. The same holds for
  \<open>set_fan_speed\<close>. So COOL and Cool are sent as cool is, with command \<open>0x30\<close>.
\<close>

theorem lookup_ignores_case:
  "(map_of modes (lower s) = Some cmd \<longrightarrow>
      set_mode self s fuel w =
        send_nec_command self 0x00 cmd fuel (print (''Setting mode to '' @ s @ ''...'') w)
      \<and> set_mode self (lower s) fuel w =
        send_nec_command self 0x00 cmd fuel
          (print (''Setting mode to '' @ lower s @ ''...'') w)
      \<and> map_option (\<lambda>(r, w'). (r, calls w', sleeps w')) (set_mode self s fuel w) =
        map_option (\<lambda>(r, w'). (r, calls w', sleeps w')) (set_mode self (lower s) fuel w))
   \<and> (map_of speeds (lower s) = Some cmd \<longrightarrow>
      set_fan_speed self s fuel w =
        send_nec_command self 0x00 cmd fuel
          (print (''Setting fan speed to '' @ s @ ''...'') w)
      \<and> set_fan_speed self (lower s) fuel w =
        send_nec_command self 0x00 cmd fuel
          (print (''Setting fan speed to '' @ lower s @ ''...'') w)
      \<and> map_option (\<lambda>(r, w'). (r, calls w', sleeps w')) (set_fan_speed self s fuel w) =
        map_option (\<lambda>(r, w'). (r, calls w', sleeps w')) (set_fan_speed self (lower s) fuel w))
   \<and> set_mode self ''COOL'' fuel w =
        send_nec_command self 0x00 0x30 fuel (print ''Setting mode to COOL...'' w)
   \<and> set_mode self ''Cool'' fuel w =
        send_nec_command self 0x00 0x30 fuel (print ''Setting mode to Cool...'' w)
   \<and> set_mode self ''cool'' fuel w =
        send_nec_command self 0x00 0x30 fuel (print ''Setting mode to cool...'' w)"
proof -
  have m: "set_mode self s fuel w =
        send_nec_command self 0x00 cmd fuel (print (''Setting mode to '' @ s @ ''...'') w)
      \<and> set_mode self (lower s) fuel w =
        send_nec_command self 0x00 cmd fuel
          (print (''Setting mode to '' @ lower s @ ''...'') w)
      \<and> map_option (\<lambda>(r, w'). (r, calls w', sleeps w')) (set_mode self s fuel w) =
        map_option (\<lambda>(r, w'). (r, calls w', sleeps w')) (set_mode self (lower s) fuel w)"
    if k: "map_of modes (lower s) = Some cmd"
  proof -
    from modes_key_lower [OF k] k have "map_of modes (lower (lower s)) = Some cmd"
      by simp
    from set_mode_known [OF k] set_mode_known [OF this] show ?thesis
      by (simp add: send_nec_command_print)
  qed
  have f: "set_fan_speed self s fuel w =
        send_nec_command self 0x00 cmd fuel
          (print (''Setting fan speed to '' @ s @ ''...'') w)
      \<and> set_fan_speed self (lower s) fuel w =
        send_nec_command self 0x00 cmd fuel
          (print (''Setting fan speed to '' @ lower s @ ''...'') w)
      \<and> map_option (\<lambda>(r, w'). (r, calls w', sleeps w')) (set_fan_speed self s fuel w) =
        map_option (\<lambda>(r, w'). (r, calls w', sleeps w')) (set_fan_speed self (lower s) fuel w)"
    if k: "map_of speeds (lower s) = Some cmd"
  proof -
    from speeds_key_lower [OF k] k have "map_of speeds (lower (lower s)) = Some cmd"
      by simp
    from set_fan_speed_known [OF k] set_fan_speed_known [OF this] show ?thesis
      by (simp add: send_nec_command_print)
  qed
  have "map_of modes ''cool'' = Some 0x30"
    by (simp add: modes_def)
  then have "set_mode self ''COOL'' fuel w =
        send_nec_command self 0x00 0x30 fuel (print ''Setting mode to COOL...'' w)"
    and "set_mode self ''Cool'' fuel w =
        send_nec_command self 0x00 0x30 fuel (print ''Setting mode to Cool...'' w)"
    and "set_mode self ''cool'' fuel w =
        send_nec_command self 0x00 0x30 fuel (print ''Setting mode to cool...'' w)"
    by (simp_all add: set_mode_def lower_examples)
  with m f show ?thesis by blast
qed

theorem lookup_ignores_case_witness:
  "set_mode ac ''COOL'' 1 (fresh_world willing_daemon) =
      send_nec_command ac 0x00 0x30 1 (print ''Setting mode to COOL...'' (fresh_world willing_daemon))
   \<and> set_mode ac (lower ''COOL'') 1 (fresh_world willing_daemon) =
      send_nec_command ac 0x00 0x30 1 (print ''Setting mode to cool...'' (fresh_world willing_daemon))
   \<and> map_option (\<lambda>(r, w'). (r, calls w', sleeps w'))
        (set_mode ac ''COOL'' 1 (fresh_world willing_daemon)) =
      map_option (\<lambda>(r, w'). (r, calls w', sleeps w'))
        (set_mode ac ''cool'' 1 (fresh_world willing_daemon))
   \<and> set_fan_speed ac ''HIGH'' 1 (fresh_world willing_daemon) =
      send_nec_command ac 0x00 0x42 1
        (print ''Setting fan speed to HIGH...'' (fresh_world willing_daemon))
   \<and> map_option (\<lambda>(r, w'). (r, calls w', sleeps w'))
        (set_fan_speed ac ''HIGH'' 1 (fresh_world willing_daemon)) =
      map_option (\<lambda>(r, w'). (r, calls w', sleeps w'))
        (set_fan_speed ac ''high'' 1 (fresh_world willing_daemon))"
proof -
  have k1: "map_of modes (lower ''COOL'') = Some 0x30"
    and k2: "map_of speeds (lower ''HIGH'') = Some 0x42"
    by (simp_all add: lower_examples modes_def speeds_def)
  note t1 = lookup_ignores_case [where s = "''COOL''" and cmd = "0x30" and self = ac
      and fuel = 1 and w = "fresh_world willing_daemon"]
  note t2 = lookup_ignores_case [where s = "''HIGH''" and cmd = "0x42" and self = ac
      and fuel = 1 and w = "fresh_world willing_daemon"]
  from t1 k1 have "set_mode ac ''COOL'' 1 (fresh_world willing_daemon) =
      send_nec_command ac 0x00 0x30 1
        (print (''Setting mode to '' @ ''COOL'' @ ''...'') (fresh_world willing_daemon))
    \<and> set_mode ac (lower ''COOL'') 1 (fresh_world willing_daemon) =
      send_nec_command ac 0x00 0x30 1
        (print (''Setting mode to '' @ lower ''COOL'' @ ''...'') (fresh_world willing_daemon))
    \<and> map_option (\<lambda>(r, w'). (r, calls w', sleeps w'))
        (set_mode ac ''COOL'' 1 (fresh_world willing_daemon)) =
      map_option (\<lambda>(r, w'). (r, calls w', sleeps w'))
        (set_mode ac (lower ''COOL'') 1 (fresh_world willing_daemon))"
    by blast
  moreover from t2 k2 have "set_fan_speed ac ''HIGH'' 1 (fresh_world willing_daemon) =
      send_nec_command ac 0x00 0x42 1
        (print (''Setting fan speed to '' @ ''HIGH'' @ ''...'') (fresh_world willing_daemon))
    \<and> map_option (\<lambda>(r, w'). (r, calls w', sleeps w'))
        (set_fan_speed ac ''HIGH'' 1 (fresh_world willing_daemon)) =
      map_option (\<lambda>(r, w'). (r, calls w', sleeps w'))
        (set_fan_speed ac (lower ''HIGH'') 1 (fresh_world willing_daemon))"
    by blast
  ultimately show ?thesis
    unfolding lower_examples append.simps by blast
qed

text \<open>
  C10. Only the low eight bits of the address and of the command reach the frame: the
  pulse list for \<open>a\<close> and \<open>c\<close> is the one for \<open>a mod 256\<close> and \<open>c mod 256\<close>, it has 67
  entries, and the whole call behaves the same. No value is rejected: an exception
  that leaves \<open>send_nec_command\<close> was raised by the daemon, and with a daemon that
  accepts every request the call returns normally for every address and command.
\<close>

theorem low_byte_only:
  "nec_pulses a c = nec_pulses (a mod 256) (c mod 256)
   \<and> length (nec_pulses a c) = 67
   \<and> send_nec_command self a c fuel w = send_nec_command self (a mod 256) (c mod 256) fuel w
   \<and> (\<forall>e w'. send_nec_command self a c fuel w = Some (Inl e, w') \<longrightarrow>
         (\<exists>cs. daemon w cs = Raises e))
   \<and> send_nec_command self a c 1 (fresh_world willing_daemon) =
       Some (Inr (),
         \<lparr>stdout = [],
          calls = [Hardware_PWM (gpio_pin self) (carrier_freq self) 500000, Wave_clear,
                   Wave_add_generic (wave_pulses self (nec_pulses a c)), Wave_create,
                   Wave_send_once 0, Wave_tx_busy, Wave_delete 0,
                   Hardware_PWM (gpio_pin self) 0 0],
          sleeps = 0, daemon = willing_daemon\<rparr>)"
proof -
  have "send_nec_command self a c 1 (fresh_world willing_daemon) =
       Some (Inr (),
         \<lparr>stdout = [],
          calls = [Hardware_PWM (gpio_pin self) (carrier_freq self) 500000, Wave_clear,
                   Wave_add_generic (wave_pulses self (nec_pulses a c)), Wave_create,
                   Wave_send_once 0, Wave_tx_busy, Wave_delete 0,
                   Hardware_PWM (gpio_pin self) 0 0],
          sleeps = 0, daemon = willing_daemon\<rparr>)"
    by (simp add: send_nec_command_def send_raw_code_def pigpio_def fresh_world_def
        willing_daemon_def Let_def)
  moreover have "send_nec_command self a c fuel w =
      send_nec_command self (a mod 256) (c mod 256) fuel w"
    by (simp add: send_nec_command_def nec_pulses_mod)
  ultimately show ?thesis
    using send_nec_command_raises [of self a c fuel w]
    by (simp add: nec_pulses_mod nec_pulses_67)
qed

theorem low_byte_only_witness:
  "nec_pulses 0x130 0x208 = nec_pulses 0x30 0x08
   \<and> send_nec_command ac 0x130 0x208 1 (fresh_world refusing_wave_create) =
       send_nec_command ac 0x30 0x08 1 (fresh_world refusing_wave_create)
   \<and> send_nec_command ac 0x130 0x208 1 (fresh_world refusing_wave_create) =
       Some (Inl (Pigpio_error ''No more CBs for waveform''),
         \<lparr>stdout = [],
          calls = [Hardware_PWM 17 38000 500000, Wave_clear,
                   Wave_add_generic (wave_pulses ac (nec_pulses 0x130 0x208)), Wave_create],
          sleeps = 0, daemon = refusing_wave_create\<rparr>)
   \<and> refusing_wave_create [Wave_create] = Raises (Pigpio_error ''No more CBs for waveform'')"
proof -
  have run: "send_nec_command ac 0x130 0x208 1 (fresh_world refusing_wave_create) =
       Some (Inl (Pigpio_error ''No more CBs for waveform''),
         \<lparr>stdout = [],
          calls = [Hardware_PWM 17 38000 500000, Wave_clear,
                   Wave_add_generic (wave_pulses ac (nec_pulses 0x130 0x208)), Wave_create],
          sleeps = 0, daemon = refusing_wave_create\<rparr>)"
    by (simp add: send_nec_command_def send_raw_code_def pigpio_def fresh_world_def
        refusing_wave_create_def ac_def Let_def)
  note t = low_byte_only [of "0x130" "0x208" ac 1 "fresh_world refusing_wave_create"]
  from t run have "\<exists>cs. daemon (fresh_world refusing_wave_create) cs
      = Raises (Pigpio_error ''No more CBs for waveform'')"
    by blast
  with t run show ?thesis
    by (simp add: refusing_wave_create_def)
qed

end
